theory Spec2Isabelle
  imports Complex_Main "HOL-Library.Sublist"
begin

section \<open>DownloadHelper (download-helper.js)\<close>

text \<open>
  A shallow embedding of the class \<open>DownloadHelper\<close>. JavaScript strings are modelled as
  \<open>string\<close> (one \<open>char\<close> per code unit; only ASCII letters have a case). A thrown value is
  an error object carrying a \<open>name\<close> and a \<open>message\<close> string (what \<open>Error\<close>, \<open>TypeError\<close> and
  \<open>DOMException\<close> are), or a value without a message. The browser collaborators (the canvas
  encoder, the object-URL registry, the DOM, the console and the timer) and the engine's
  rendering of numbers are parameters, and the calls made on the browser are logged.
\<close>

subsection \<open>String primitives of the language\<close>

definition upper_letters :: string where
  "upper_letters = ''ABCDEFGHIJKLMNOPQRSTUVWXYZ''"

definition lower_letters :: string where
  "lower_letters = ''abcdefghijklmnopqrstuvwxyz''"

definition digits :: string where
  "digits = ''0123456789''"

definition toLowerChar :: "char \<Rightarrow> char" where
  "toLowerChar c = (case map_of (zip upper_letters lower_letters) c of Some l \<Rightarrow> l | None \<Rightarrow> c)"

text \<open>\<open>String.prototype.toLowerCase\<close>.\<close>

definition toLowerCase :: "string \<Rightarrow> string" where
  "toLowerCase s = map toLowerChar s"

text \<open>\<open>String.prototype.startsWith\<close>.\<close>

definition startsWith :: "string \<Rightarrow> string \<Rightarrow> bool" where
  "startsWith s p = (take (length p) s = p)"

text \<open>\<open>String.prototype.includes\<close>: some position of \<open>s\<close> starts with \<open>sub\<close>.\<close>

fun js_includes :: "string \<Rightarrow> string \<Rightarrow> bool" where
  "js_includes [] sub = (sub = [])"
| "js_includes (c # cs) sub = (startsWith (c # cs) sub \<or> js_includes cs sub)"

text \<open>\<open>String.prototype.split\<close> with a one-character separator: never an empty array.\<close>

fun js_split :: "char \<Rightarrow> string \<Rightarrow> string list" where
  "js_split d [] = [[]]"
| "js_split d (c # cs) =
     (if c = d then [] # js_split d cs
      else (case js_split d cs of [] \<Rightarrow> [[c]] | w # ws \<Rightarrow> (c # w) # ws))"

text \<open>\<open>Array.prototype.pop\<close>: the last element, \<open>undefined\<close> (here \<open>None\<close>) on an empty array.\<close>

definition js_pop :: "'a list \<Rightarrow> 'a option" where
  "js_pop xs = (case rev xs of [] \<Rightarrow> None | x # _ \<Rightarrow> Some x)"

text \<open>The decimal numeral of an integer.\<close>

definition digit_char :: "nat \<Rightarrow> char" where
  "digit_char d = digits ! (d mod 10)"

fun show_nat :: "nat \<Rightarrow> string" where
  "show_nat n = (if n < 10 then [digit_char n] else show_nat (n div 10) @ [digit_char (n mod 10)])"

definition show_int :: "int \<Rightarrow> string" where
  "show_int i = (if i < 0 then CHR ''-'' # show_nat (nat (- i)) else show_nat (nat i))"

subsection \<open>Values, property lookup and thrown errors\<close>

text \<open>
  What a property read on one of the lookup tables can yield: a string of the table itself,
  or a built-in object inherited from \<open>Object.prototype\<close> (named by its path). A read of a
  property that is found nowhere yields \<open>undefined\<close>, here \<open>None\<close>.
\<close>

datatype prop_value = PStr string | PBuiltin string

text \<open>
  The members every object literal inherits from \<open>Object.prototype\<close>: a read \<open>obj[key]\<close>
  walks the prototype chain.
\<close>

definition object_prototype_names :: "string list" where
  "object_prototype_names =
     [''hasOwnProperty'', ''isPrototypeOf'', ''propertyIsEnumerable'', ''toLocaleString'',
      ''toString'', ''valueOf'', ''__defineGetter__'', ''__defineSetter__'',
      ''__lookupGetter__'', ''__lookupSetter__'']"

definition object_prototype_get :: "string \<Rightarrow> prop_value option" where
  "object_prototype_get key =
     (if key = ''constructor'' then Some (PBuiltin ''Object'')
      else if key = ''__proto__'' then Some (PBuiltin ''Object.prototype'')
      else if key \<in> set object_prototype_names then Some (PBuiltin (''Object.prototype.'' @ key))
      else None)"

text \<open>\<open>obj[key]\<close> on an object literal with own string-valued properties \<open>own\<close>.\<close>

definition js_get :: "(string \<times> string) list \<Rightarrow> string \<Rightarrow> prop_value option" where
  "js_get own key =
     (case map_of own key of Some v \<Rightarrow> Some (PStr v) | None \<Rightarrow> object_prototype_get key)"

text \<open>Truthiness of a property read: \<open>undefined\<close> and the empty string are falsy.\<close>

fun truthy :: "prop_value option \<Rightarrow> bool" where
  "truthy None = False"
| "truthy (Some (PStr s)) = (s \<noteq> [])"
| "truthy (Some (PBuiltin b)) = True"

text \<open>\<open>a || d\<close> with a string default \<open>d\<close>.\<close>

definition js_or :: "prop_value option \<Rightarrow> string \<Rightarrow> prop_value" where
  "js_or a d = (case a of Some v \<Rightarrow> (if truthy a then v else PStr d) | None \<Rightarrow> PStr d)"

text \<open>String conversion, as a template literal applies it.\<close>

fun js_toString :: "prop_value \<Rightarrow> string" where
  "js_toString (PStr s) = s"
| "js_toString (PBuiltin b) =
     (if b = ''Object.prototype'' then ''[object Object]''
      else ''function '' @ last (js_split CHR ''.'' b) @ ''() { [native code] }'')"

record js_error =
  name :: string
  message :: string

text \<open>
  What a \<open>throw\<close> can raise: an error object, \<open>null\<close>, \<open>undefined\<close>, or any other value
  that has no \<open>message\<close> property (a string, a number, a plain object).
\<close>

datatype thrown = ErrorObject js_error | ThrownNull | ThrownUndefined | ThrownPlain


text \<open>
  The \<open>TypeError\<close> of a property read on \<open>undefined\<close> and on \<open>null\<close> (the wording of the
  message is the engine's).
\<close>

definition undefined_has_no :: "string \<Rightarrow> js_error" where
  "undefined_has_no property =
     \<lparr>name = ''TypeError'',
      message = ''Cannot read properties of undefined (reading '' @
                [CHR 0x27] @ property @ [CHR 0x27] @ '')''\<rparr>"

definition null_has_no :: "string \<Rightarrow> js_error" where
  "null_has_no property =
     \<lparr>name = ''TypeError'',
      message = ''Cannot read properties of null (reading '' @
                [CHR 0x27] @ property @ [CHR 0x27] @ '')''\<rparr>"

subsection \<open>Format resolution\<close>

definition extensions :: "(string \<times> string) list" where
  "extensions =
     [(''jpeg'', ''jpg''), (''jpg'', ''jpg''), (''png'', ''png''), (''webp'', ''webp''),
      (''gif'', ''gif''), (''pdf'', ''pdf''), (''txt'', ''txt''), (''text'', ''txt''),
      (''json'', ''json'')]"

definition getFileExtension :: "string \<Rightarrow> prop_value" where
  "getFileExtension format = js_or (js_get extensions (toLowerCase format)) ''file''"

definition mimeTypes :: "(string \<times> string) list" where
  "mimeTypes =
     [(''jpeg'', ''image/jpeg''), (''jpg'', ''image/jpeg''), (''png'', ''image/png''),
      (''webp'', ''image/webp''), (''gif'', ''image/gif''), (''pdf'', ''application/pdf''),
      (''txt'', ''text/plain''), (''text'', ''text/plain''), (''json'', ''application/json'')]"

definition getMimeType :: "string \<Rightarrow> prop_value" where
  "getMimeType format = js_or (js_get mimeTypes (toLowerCase format)) ''application/octet-stream''"

subsection \<open>Filename sanitization\<close>

text \<open>
  \<open>replace(/\.[^/.]+$/, "")\<close>: the leftmost position where a dot is followed, up to the end
  of the string, by one or more characters that are neither \<open>/\<close> nor \<open>.\<close>; the match is
  removed. No match leaves the string alone.
\<close>

fun removeExtension :: "string \<Rightarrow> string" where
  "removeExtension [] = []"
| "removeExtension (c # cs) =
     (if c = CHR ''.'' \<and> cs \<noteq> [] \<and> list_all (\<lambda>d. d \<noteq> CHR ''/'' \<and> d \<noteq> CHR ''.'') cs
      then [] else c # removeExtension cs)"

text \<open>The character class \<open>[a-zA-Z0-9-_]\<close>.\<close>

definition safe_char :: "char \<Rightarrow> bool" where
  "safe_char c = (c \<in> set (lower_letters @ upper_letters @ digits @ ''-_''))"

text \<open>\<open>replace(/[^a-zA-Z0-9-_]/g, "_")\<close>.\<close>

definition replaceSpecial :: "string \<Rightarrow> string" where
  "replaceSpecial s = map (\<lambda>c. if safe_char c then c else CHR ''_'') s"

definition cleanFilename :: "string \<Rightarrow> string" where
  "cleanFilename filename = take 50 (replaceSpecial (removeExtension filename))"

subsection \<open>Error suggestions\<close>

definition getErrorSuggestion :: "js_error \<Rightarrow> string" where
  "getErrorSuggestion error =
     (let errorMsg = toLowerCase (message error) in
      if js_includes errorMsg ''security'' \<or> js_includes errorMsg ''cross-origin''
      then ''Please try a different image or check browser security settings.''
      else if js_includes errorMsg ''supported'' \<or> js_includes errorMsg ''format''
      then ''This format may not be supported by your browser. Try a different format.''
      else if js_includes errorMsg ''size'' \<or> js_includes errorMsg ''large''
      then ''The file might be too large. Try a smaller image or lower quality.''
      else ''Please try again or use a different file.'')"

subsection \<open>Surface export\<close>

text \<open>
  A JavaScript number as far as this file looks at one: a finite value or \<open>NaN\<close>. The code
  only tests a quality for truthiness and hands it on, so no rounding is involved.
\<close>

datatype jsnum = Num real | NaN

text \<open>Truthiness of a possibly absent number: \<open>undefined\<close>, \<open>0\<close> and \<open>NaN\<close> are falsy.\<close>

fun num_truthy :: "jsnum option \<Rightarrow> bool" where
  "num_truthy None = False"
| "num_truthy (Some NaN) = False"
| "num_truthy (Some (Num r)) = (r \<noteq> 0)"

text \<open>\<open>a || d\<close> with a number default \<open>d\<close>.\<close>

definition num_or :: "jsnum option \<Rightarrow> jsnum \<Rightarrow> jsnum" where
  "num_or a d = (case a of Some v \<Rightarrow> (if num_truthy a then v else d) | None \<Rightarrow> d)"

text \<open>
  A drawable surface is its encoder \<open>toDataURL(type, quality)\<close>: given the requested type and
  the quality (\<open>None\<close> when the argument is not passed) it returns a data URL or throws an
  error object, as the encoder of a canvas element does.
\<close>

type_synonym canvas = "prop_value \<Rightarrow> jsnum option \<Rightarrow> js_error + string"

record blob =
  blob_parts :: string
  blob_type :: prop_value

text \<open>The calls made on the browser, in the order they are made.\<close>

datatype event =
    ToDataURL prop_value "jsnum option"
  | ConsoleWarn string
  | ConsoleError thrown
  | CreateObjectURL blob
  | CreateElement string
  | SetHref string
  | SetDownload string
  | SetDisplay string
  | AppendChild
  | Click
  | RemoveChild
  | SetTimeoutRevokeObjectURL string nat

definition canvasToDataURL ::
  "canvas \<Rightarrow> prop_value \<Rightarrow> jsnum option \<Rightarrow> (js_error + string) \<times> event list" where
  "canvasToDataURL canvas mimeType quality_arg =
     (let q = (case quality_arg of None \<Rightarrow> Num 0.8 | Some v \<Rightarrow> v);
          first = (if mimeType = PStr ''image/png'' then None else Some q)
      in case canvas mimeType first of
           Inr url \<Rightarrow> (Inr url, [ToDataURL mimeType first])
         | Inl error \<Rightarrow>
             if name error = ''SecurityError'' \<or> js_includes (message error) ''supported''
             then (canvas (PStr ''image/jpeg'') (Some q),
                   [ToDataURL mimeType first,
                    ConsoleWarn (''Format '' @ js_toString mimeType @
                                 '' not supported, falling back to JPEG''),
                    ToDataURL (PStr ''image/jpeg'') (Some q)])
             else (Inl error, [ToDataURL mimeType first]))"

subsection \<open>Download orchestration\<close>

text \<open>
  The \<open>data\<close> argument by the branch that takes it: a string, a canvas, a \<open>Blob\<close>, or any
  other value, given by its truthiness and by what the \<open>Blob\<close> constructor gets when it reads
  the value: its content (for \<open>null\<close>, \<open>DOther False (Inr ''null'')\<close>), or what the value's own
  string conversion throws.
\<close>

datatype dl_data = DStr string | DCanvas canvas | DBlob blob | DOther bool "thrown + string"

fun data_truthy :: "dl_data \<Rightarrow> bool" where
  "data_truthy (DStr s) = (s \<noteq> [])"
| "data_truthy (DCanvas c) = True"
| "data_truthy (DBlob b) = True"
| "data_truthy (DOther t content) = t"

text \<open>A string argument that may be \<open>undefined\<close>: \<open>undefined\<close> and \<open>""\<close> are falsy.\<close>

fun str_truthy :: "string option \<Rightarrow> bool" where
  "str_truthy None = False"
| "str_truthy (Some s) = (s \<noteq> [])"

record options =
  quality :: "jsnum option"

record host =
  createObjectURL :: "blob \<Rightarrow> string"

datatype download_result = DownloadSucceeded string | DownloadFailed string string

text \<open>The encoder calls among the calls made: requested type and quality of each.\<close>

fun encoder_calls :: "event list \<Rightarrow> (prop_value \<times> jsnum option) list" where
  "encoder_calls [] = []"
| "encoder_calls (ToDataURL m q # evs) = (m, q) # encoder_calls evs"
| "encoder_calls (ev # evs) = encoder_calls evs"

text \<open>Lines 38 to 54: what the anchor will point at.\<close>

definition resolveDownloadData ::
  "host \<Rightarrow> dl_data \<Rightarrow> prop_value \<Rightarrow> options \<Rightarrow> (thrown + string) \<times> event list" where
  "resolveDownloadData h data mimeType opts =
     (case data of
        DStr s \<Rightarrow>
          if startsWith s ''data:'' then (Inr s, [])
          else (let b = \<lparr>blob_parts = s, blob_type = mimeType\<rparr>
                in (Inr (createObjectURL h b), [CreateObjectURL b]))
      | DCanvas c \<Rightarrow>
          apfst (map_sum ErrorObject id)
            (canvasToDataURL c mimeType (Some (num_or (quality opts) (Num 0.8))))
      | DBlob b \<Rightarrow> (Inr (createObjectURL h b), [CreateObjectURL b])
      | DOther t content \<Rightarrow>
          (case content of
             Inl raised \<Rightarrow> (Inl raised, [])
           | Inr bytes \<Rightarrow>
               (let b = \<lparr>blob_parts = bytes, blob_type = mimeType\<rparr>
                in (Inr (createObjectURL h b), [CreateObjectURL b]))))"

text \<open>Lines 57 to 69: the anchor is created, clicked and removed; an object URL is released later.\<close>

definition triggerDownload :: "string \<Rightarrow> string \<Rightarrow> event list" where
  "triggerDownload downloadData downloadName =
     [CreateElement ''a'', SetHref downloadData, SetDownload downloadName, SetDisplay ''none'',
      AppendChild, Click, RemoveChild] @
     (if startsWith downloadData ''blob:'' then [SetTimeoutRevokeObjectURL downloadData 100]
      else [])"

text \<open>The body of the \<open>try\<close> block: the download name, or the value thrown.\<close>

definition downloadFile_try ::
  "host \<Rightarrow> dl_data \<Rightarrow> string option \<Rightarrow> string option \<Rightarrow> options option \<Rightarrow>
   (thrown + string) \<times> event list" where
  "downloadFile_try h data filename format options_arg =
     (let opts = (case options_arg of None \<Rightarrow> \<lparr>quality = None\<rparr> | Some given \<Rightarrow> given) in
      case (filename, format) of
        (Some fname, Some fmt) \<Rightarrow>
          if \<not> data_truthy data \<or> \<not> str_truthy filename \<or> \<not> str_truthy format
          then (Inl (ErrorObject \<lparr>name = ''Error'',
                                    message = ''Missing required parameters for download''\<rparr>), [])
          else
            (let fileExtension = getFileExtension fmt;
                 mimeType = getMimeType fmt;
                 cleanName = cleanFilename fname;
                 downloadName = cleanName @ ''-converted.'' @ js_toString fileExtension
             in case resolveDownloadData h data mimeType opts of
                  (Inl raised, evs) \<Rightarrow> (Inl raised, evs)
                | (Inr downloadData, evs) \<Rightarrow>
                    (Inr downloadName, evs @ triggerDownload downloadData downloadName))
      | _ \<Rightarrow> (Inl (ErrorObject \<lparr>name = ''Error'',
                                     message = ''Missing required parameters for download''\<rparr>), []))"

text \<open>
  \<open>downloadFile\<close>: the \<open>try\<close> block and its \<open>catch\<close>. The handler logs the value caught and
  builds the failure result from \<open>error.message\<close> and \<open>getErrorSuggestion(error)\<close>. The read
  \<open>error.message\<close> throws on \<open>null\<close> and \<open>undefined\<close>, and on any other value without a
  message \<open>getErrorSuggestion\<close> throws at \<open>error.message.toLowerCase()\<close>: then the handler
  itself throws and the promise is rejected, here \<open>Inl\<close>.
\<close>

definition downloadFile ::
  "host \<Rightarrow> dl_data \<Rightarrow> string option \<Rightarrow> string option \<Rightarrow> options option \<Rightarrow>
   (js_error + download_result) \<times> event list" where
  "downloadFile h data filename format options_arg =
     (case downloadFile_try h data filename format options_arg of
        (Inr downloadName, evs) \<Rightarrow> (Inr (DownloadSucceeded downloadName), evs)
      | (Inl raised, evs) \<Rightarrow>
          (case raised of
             ErrorObject error \<Rightarrow>
               (Inr (DownloadFailed (message error) (getErrorSuggestion error)),
                evs @ [ConsoleError raised])
           | ThrownNull \<Rightarrow> (Inl (null_has_no ''message''), evs @ [ConsoleError raised])
           | ThrownUndefined \<Rightarrow>
               (Inl (undefined_has_no ''message''), evs @ [ConsoleError raised])
           | ThrownPlain \<Rightarrow>
               (Inl (undefined_has_no ''toLowerCase''), evs @ [ConsoleError raised])))"

subsection \<open>File validation\<close>

text \<open>
  A present file object by the three properties the code reads; each may be missing
  (\<open>undefined\<close>). An absent file (\<open>undefined\<close>, \<open>null\<close>, any falsy value) is \<open>None\<close>. A size is
  an integer and the limit a finite number; the two multiplications by 1024 scale the limit
  by a power of two, which the number type does exactly. How the template literal renders
  the limit is the engine's \<open>Number::toString\<close>, the parameter \<open>numberToString\<close>.
\<close>

record file_like =
  file_name :: "string option"
  file_size :: "int option"
  file_type :: "string option"

record file_info =
  info_name :: "string option"
  info_size :: "int option"
  info_type :: "string option"
  info_extension :: prop_value

record validation =
  isValid :: bool
  errors :: "string list"
  fileInfo :: "file_info option"

definition validateFile ::
  "(real \<Rightarrow> string) \<Rightarrow> file_like option \<Rightarrow> real option \<Rightarrow> js_error + validation" where
  "validateFile numberToString file maxSizeMB_arg =
     (let maxSizeMB = (case maxSizeMB_arg of None \<Rightarrow> 5 | Some m \<Rightarrow> m) in
      case file of
        None \<Rightarrow> Inr \<lparr>isValid = False, errors = [''No file selected''], fileInfo = None\<rparr>
      | Some f \<Rightarrow>
          (let errors1 =
                 (case file_size f of
                    None \<Rightarrow> []
                  | Some sz \<Rightarrow>
                      if real_of_int sz > maxSizeMB * 1024 * 1024
                      then [''File size must be less than '' @ numberToString maxSizeMB @ ''MB'']
                      else []);
               errors2 = errors1 @
                 (if \<not> str_truthy (file_type f) then [''Unable to determine file type''] else [])
           in case file_name f of
                None \<Rightarrow> Inl (undefined_has_no ''split'')
              | Some n \<Rightarrow>
                  (case js_pop (js_split CHR ''.'' n) of
                     None \<Rightarrow> Inl (undefined_has_no ''toLowerCase'')
                   | Some ext \<Rightarrow>
                       Inr \<lparr>isValid = (length errors2 = 0), errors = errors2,
                            fileInfo = Some \<lparr>info_name = file_name f, info_size = file_size f,
                                             info_type = file_type f,
                                             info_extension = getFileExtension ext\<rparr>\<rparr>)))"

subsection \<open>Example collaborators\<close>

text \<open>A browser whose object URLs all read \<open>blob:1\<close>.\<close>

definition example_host :: host where
  "example_host = \<lparr>createObjectURL = (\<lambda>b. ''blob:1'')\<rparr>"

text \<open>
  The engine's rendering of a number on the values the examples render: an integer of
  magnitude below \<open>10^21\<close> is rendered as its decimal numeral.
\<close>

definition integral_numberToString :: "real \<Rightarrow> string" where
  "integral_numberToString r = show_int \<lfloor>r\<rfloor>"

text \<open>A surface that encodes to whatever type is asked for, whatever the quality.\<close>

definition plain_canvas :: canvas where
  "plain_canvas mimeType q = Inr (''data:'' @ js_toString mimeType @ '';base64,AAAA'')"



text \<open>
  A surface whose encoder throws on PNG and whose JPEG output depends on the quality it is
  given.
\<close>

definition png_refusing_canvas :: canvas where
  "png_refusing_canvas mimeType q =
     (if mimeType = PStr ''image/png''
      then Inl \<lparr>name = ''NotSupportedError'', message = ''image/png is not supported''\<rparr>
      else if q = Some (Num 0.3) then Inr ''data:image/jpeg;base64,LOW''
      else Inr ''data:image/jpeg;base64,HIGH'')"

section \<open>Properties\<close>

subsection \<open>Strings\<close>

lemmas lower_defs = toLowerCase_def toLowerChar_def upper_letters_def lower_letters_def

lemma startsWith_prefix: "startsWith s p = prefix p s"
  unfolding startsWith_def
  by (metis append_eq_conv_conj prefix_def take_is_prefix)

text \<open>\<open>includes\<close> is the contiguous-sublist relation of the library.\<close>

lemma js_includes_sublist: "js_includes s sub = sublist sub s"
  by (induction s) (simp_all add: startsWith_prefix sublist_Cons_right)

lemma js_split_nonempty: "js_split d s \<noteq> []"
  by (induction s) (auto split: list.splits)

lemma js_pop_split: "\<exists>w. js_pop (js_split d s) = Some w"
  using js_split_nonempty[of d s]
  by (cases "rev (js_split d s)") (auto simp: js_pop_def)

lemma toLowerChar_not_upper: "toLowerChar c \<notin> set upper_letters"
  unfolding toLowerChar_def upper_letters_def lower_letters_def
  by (simp split: option.splits)

lemma toLowerCase_no_upper: "c \<in> set (toLowerCase s) \<Longrightarrow> c \<notin> set upper_letters"
  by (auto simp: toLowerCase_def toLowerChar_not_upper)

lemma toLowerCase_idem: "toLowerCase (toLowerCase s) = toLowerCase s"
proof -
  have "toLowerChar (toLowerChar c) = toLowerChar c" for c
    using toLowerChar_not_upper[of c]
    by (auto simp: toLowerChar_def upper_letters_def lower_letters_def split: option.splits)
  then show ?thesis by (simp add: toLowerCase_def)
qed

text \<open>
  No lower-cased key reaches a member of \<open>Object.prototype\<close> whose name has a capital: of
  the inherited members only \<open>constructor\<close> and \<open>__proto__\<close> can be hit.
\<close>

lemma toLowerCase_not_prototype_name: "toLowerCase s \<notin> set object_prototype_names"
proof
  assume a: "toLowerCase s \<in> set object_prototype_names"
  have "\<forall>n \<in> set object_prototype_names. \<exists>c \<in> set n. c \<in> set upper_letters"
    by (simp add: object_prototype_names_def upper_letters_def)
  with a obtain c where "c \<in> set (toLowerCase s)" "c \<in> set upper_letters" by blast
  then show False using toLowerCase_no_upper by blast
qed

subsection \<open>Format resolution\<close>

text \<open>
  C5. Every format token is claimed to resolve, case-insensitively, to the documented pair,
  and every unrecognized token to \<open>file\<close> and \<open>application/octet-stream\<close>. The token
  \<open>constructor\<close> is in neither table, yet the property read finds the member inherited from
  \<open>Object.prototype\<close>, which is truthy, so the \<open>||\<close> default is not taken: both lookups
  return the \<open>Object\<close> constructor instead of the default strings.
\<close>

theorem format_lookup_constructor:
  "getFileExtension ''constructor'' = PBuiltin ''Object'' \<and>
   getMimeType ''constructor'' = PBuiltin ''Object'' \<and>
   getFileExtension ''constructor'' \<noteq> PStr ''file'' \<and>
   getMimeType ''constructor'' \<noteq> PStr ''application/octet-stream''"
  by (simp add: getFileExtension_def getMimeType_def js_or_def js_get_def extensions_def
      mimeTypes_def object_prototype_get_def lower_defs)

text \<open>Apart from the two inherited names, an unknown token does get the defaults.\<close>

lemma format_lookup_unknown:
  assumes "toLowerCase t \<notin> fst ` set extensions"
    and "toLowerCase t \<noteq> ''constructor''" and "toLowerCase t \<noteq> ''__proto__''"
  shows "getFileExtension t = PStr ''file'' \<and> getMimeType t = PStr ''application/octet-stream''"
proof -
  have keys: "fst ` set mimeTypes = fst ` set extensions"
    by (simp add: mimeTypes_def extensions_def)
  have e: "map_of extensions (toLowerCase t) = None"
    using assms(1) by (simp add: map_of_eq_None_iff)
  have m: "map_of mimeTypes (toLowerCase t) = None"
    using assms(1) keys by (simp add: map_of_eq_None_iff)
  have p: "object_prototype_get (toLowerCase t) = None"
    using assms(2,3) toLowerCase_not_prototype_name[of t] by (simp add: object_prototype_get_def)
  show ?thesis
    by (simp add: getFileExtension_def getMimeType_def js_or_def js_get_def e m p)
qed

text \<open>The lookups depend on the token only through its lower-cased form.\<close>

lemma format_lookup_case_insensitive:
  "toLowerCase a = toLowerCase b \<Longrightarrow>
   getFileExtension a = getFileExtension b \<and> getMimeType a = getMimeType b"
  by (simp add: getFileExtension_def getMimeType_def)

lemma format_lookup_jpeg:
  "getFileExtension ''jpeg'' = PStr ''jpg'' \<and> getMimeType ''jpeg'' = PStr ''image/jpeg'' \<and>
   getFileExtension ''JPEG'' = PStr ''jpg'' \<and> getMimeType ''JPEG'' = PStr ''image/jpeg''"
  by (simp add: getFileExtension_def getMimeType_def js_or_def js_get_def extensions_def
      mimeTypes_def lower_defs)

subsection \<open>Filename sanitization\<close>

lemma removeExtension_strip:
  "ext \<noteq> [] \<Longrightarrow> list_all (\<lambda>d. d \<noteq> CHR ''/'' \<and> d \<noteq> CHR ''.'') ext \<Longrightarrow>
   removeExtension (stem @ CHR ''.'' # ext) = stem"
  by (induction stem) (auto simp: list_all_iff)

lemma cleanFilename_safe: "list_all safe_char (cleanFilename s)"
  unfolding cleanFilename_def replaceSpecial_def list_all_iff
  by (auto dest!: in_set_takeD simp: safe_char_def)

text \<open>
  C3, as the specification states it, fails: the pattern removes the last extension only,
  so the dot of \<open>v2.2\<close> stays and is then replaced.
\<close>

theorem cleanFilename_spec_example_fails:
  "cleanFilename ''My File v2.2.jpg'' \<noteq> ''My_File_v2''"
  by (simp add: cleanFilename_def replaceSpecial_def safe_char_def lower_letters_def
      upper_letters_def digits_def)

text \<open>
  C3, amended. \<open>cleanFilename("My File v2.2.jpg")\<close> returns \<open>My_File_v2_2\<close>: the final
  extension \<open>.jpg\<close> is stripped, and every character outside letters, digits, \<open>-\<close> and \<open>_\<close>
  (the two spaces and the remaining dot) is replaced by \<open>_\<close>.
\<close>

theorem cleanFilename_My_File:
  "removeExtension ''My File v2.2.jpg'' = ''My File v2.2'' \<and>
   replaceSpecial ''My File v2.2'' = ''My_File_v2_2'' \<and>
   cleanFilename ''My File v2.2.jpg'' = ''My_File_v2_2''"
  by (simp add: cleanFilename_def replaceSpecial_def safe_char_def lower_letters_def
      upper_letters_def digits_def)

text \<open>
  C10. \<open>cleanFilename\<close> is a total function of its input string, and its output is never
  longer than 50 characters.
\<close>

theorem cleanFilename_length: "length (cleanFilename s) \<le> 50"
  by (simp add: cleanFilename_def)

text \<open>At a name of 60 characters with an extension, the bound is reached.\<close>

theorem cleanFilename_length_witness:
  "length (cleanFilename (replicate 60 CHR ''a'' @ ''.png'')) \<le> 50 \<and>
   cleanFilename (replicate 60 CHR ''a'' @ ''.png'') = replicate 50 CHR ''a''"
proof -
  have "removeExtension (replicate 60 CHR ''a'' @ CHR ''.'' # ''png'') = replicate 60 CHR ''a''"
    by (rule removeExtension_strip) simp_all
  then have "cleanFilename (replicate 60 CHR ''a'' @ ''.png'') = replicate 50 CHR ''a''"
    by (simp add: cleanFilename_def replaceSpecial_def safe_char_def lower_letters_def
        take_map flip: replicate_append_same)
  then show ?thesis
    using cleanFilename_length[of "replicate 60 CHR ''a'' @ ''.png''"] by simp
qed

subsection \<open>Error suggestions\<close>

text \<open>
  C7. \<open>getErrorSuggestion\<close> is a total function of the error's message: on the lower-cased
  message, \<open>security\<close> or \<open>cross-origin\<close> gives the security hint; else \<open>supported\<close> or
  \<open>format\<close> the format hint; else \<open>size\<close> or \<open>large\<close> the size hint; else the generic
  hint. The message \<open>SecurityError: cross-origin\<close> gets the security hint.
\<close>

theorem getErrorSuggestion_priority:
  "getErrorSuggestion e =
     (if sublist ''security'' (toLowerCase (message e)) \<or>
         sublist ''cross-origin'' (toLowerCase (message e))
      then ''Please try a different image or check browser security settings.''
      else if sublist ''supported'' (toLowerCase (message e)) \<or>
              sublist ''format'' (toLowerCase (message e))
      then ''This format may not be supported by your browser. Try a different format.''
      else if sublist ''size'' (toLowerCase (message e)) \<or>
              sublist ''large'' (toLowerCase (message e))
      then ''The file might be too large. Try a smaller image or lower quality.''
      else ''Please try again or use a different file.'') \<and>
   getErrorSuggestion \<lparr>name = n, message = ''SecurityError: cross-origin''\<rparr> =
     ''Please try a different image or check browser security settings.''"
proof
  show "getErrorSuggestion e =
     (if sublist ''security'' (toLowerCase (message e)) \<or>
         sublist ''cross-origin'' (toLowerCase (message e))
      then ''Please try a different image or check browser security settings.''
      else if sublist ''supported'' (toLowerCase (message e)) \<or>
              sublist ''format'' (toLowerCase (message e))
      then ''This format may not be supported by your browser. Try a different format.''
      else if sublist ''size'' (toLowerCase (message e)) \<or>
              sublist ''large'' (toLowerCase (message e))
      then ''The file might be too large. Try a smaller image or lower quality.''
      else ''Please try again or use a different file.'')"
    unfolding getErrorSuggestion_def Let_def js_includes_sublist by (rule refl)
  show "getErrorSuggestion \<lparr>name = n, message = ''SecurityError: cross-origin''\<rparr> =
     ''Please try a different image or check browser security settings.''"
    by (simp add: getErrorSuggestion_def lower_defs startsWith_def)
qed

text \<open>A message that names a format and a size as well as security gets the security hint.\<close>

theorem getErrorSuggestion_priority_witness:
  "getErrorSuggestion \<lparr>name = ''Error'', message = ''Security: format too LARGE''\<rparr> =
     ''Please try a different image or check browser security settings.'' \<and>
   getErrorSuggestion \<lparr>name = ''Error'', message = ''Format too LARGE''\<rparr> =
     ''This format may not be supported by your browser. Try a different format.'' \<and>
   getErrorSuggestion \<lparr>name = ''Error'', message = ''too LARGE''\<rparr> =
     ''The file might be too large. Try a smaller image or lower quality.'' \<and>
   getErrorSuggestion \<lparr>name = ''Error'', message = ''Missing required parameters for download''\<rparr> =
     ''Please try again or use a different file.''"
  using getErrorSuggestion_priority[of "\<lparr>name = ''Error'', message = ''Security: format too LARGE''\<rparr>"]
    getErrorSuggestion_priority[of "\<lparr>name = ''Error'', message = ''Format too LARGE''\<rparr>"]
    getErrorSuggestion_priority[of "\<lparr>name = ''Error'', message = ''too LARGE''\<rparr>"]
    getErrorSuggestion_priority[of "\<lparr>name = ''Error'', message = ''Missing required parameters for download''\<rparr>"]
  by (simp add: lower_defs sublist_code)

subsection \<open>Surface export\<close>




text \<open>
  C9, as the specification states it, fails: when the PNG attempt is refused as unsupported,
  the JPEG retry is given the quality, and two qualities give two outputs.
\<close>

theorem canvasToDataURL_png_quality_differs:
  "fst (canvasToDataURL png_refusing_canvas (PStr ''image/png'') (Some (Num 0.3))) =
     Inr ''data:image/jpeg;base64,LOW'' \<and>
   fst (canvasToDataURL png_refusing_canvas (PStr ''image/png'') (Some (Num 0.9))) =
     Inr ''data:image/jpeg;base64,HIGH''"
  by (simp add: canvasToDataURL_def png_refusing_canvas_def startsWith_def)

text \<open>
  C9, amended. For a PNG export the encoder is first called without the quality argument,
  and unless that attempt fails with a \<open>SecurityError\<close> or a message containing \<open>supported\<close>
  (the failures that start the JPEG retry), the whole outcome is the same for every two
  quality arguments; when it does fail so, the outcome is that of the JPEG encoding at the
  quality given. For every other MIME type the first encoder call carries the quality.
\<close>

theorem canvasToDataURL_png_ignores_quality:
  "((case canvas (PStr ''image/png'') None of
       Inr url \<Rightarrow> True
     | Inl e \<Rightarrow> \<not> (name e = ''SecurityError'' \<or> sublist ''supported'' (message e))) \<longrightarrow>
    canvasToDataURL canvas (PStr ''image/png'') q1 =
      canvasToDataURL canvas (PStr ''image/png'') q2) \<and>
   (\<exists>rest. snd (canvasToDataURL canvas (PStr ''image/png'') q1) =
      ToDataURL (PStr ''image/png'') None # rest) \<and>
   (mimeType \<noteq> PStr ''image/png'' \<longrightarrow>
      (\<exists>rest. snd (canvasToDataURL canvas mimeType (Some q)) =
         ToDataURL mimeType (Some q) # rest)) \<and>
   ((case canvas (PStr ''image/png'') None of
       Inr url \<Rightarrow> False
     | Inl e \<Rightarrow> name e = ''SecurityError'' \<or> sublist ''supported'' (message e)) \<longrightarrow>
    fst (canvasToDataURL canvas (PStr ''image/png'') (Some q)) =
      canvas (PStr ''image/jpeg'') (Some q))"
  by (auto simp: canvasToDataURL_def Let_def js_includes_sublist split: sum.splits)

theorem canvasToDataURL_png_ignores_quality_witness:
  "canvasToDataURL plain_canvas (PStr ''image/png'') (Some (Num 0.3)) =
     canvasToDataURL plain_canvas (PStr ''image/png'') (Some (Num 0.9)) \<and>
   (\<exists>rest. snd (canvasToDataURL plain_canvas (PStr ''image/webp'') (Some (Num 0.3))) =
        ToDataURL (PStr ''image/webp'') (Some (Num 0.3)) # rest) \<and>
   fst (canvasToDataURL png_refusing_canvas (PStr ''image/png'') (Some (Num 0.3))) =
     png_refusing_canvas (PStr ''image/jpeg'') (Some (Num 0.3))"
  using canvasToDataURL_png_ignores_quality[of plain_canvas "Some (Num 0.3)" "Some (Num 0.9)"
      "PStr ''image/webp''" "Num 0.3"]
    canvasToDataURL_png_ignores_quality[of png_refusing_canvas "Some (Num 0.3)"
      "Some (Num 0.9)" "PStr ''image/webp''" "Num 0.3"]
  by (simp add: plain_canvas_def png_refusing_canvas_def sublist_code)

subsection \<open>Download orchestration\<close>










text \<open>A canvas is exported and downloaded under the sanitized name.\<close>

lemma downloadFile_canvas_example:
  "downloadFile example_host (DCanvas plain_canvas) (Some ''My File v2.2.jpg'') (Some ''PNG'') None =
     (Inr (DownloadSucceeded ''My_File_v2_2-converted.png''),
      [ToDataURL (PStr ''image/png'') None, CreateElement ''a'',
       SetHref ''data:image/png;base64,AAAA'', SetDownload ''My_File_v2_2-converted.png'',
       SetDisplay ''none'', AppendChild, Click, RemoveChild])"
  by (simp add: downloadFile_def downloadFile_try_def resolveDownloadData_def
      canvasToDataURL_def triggerDownload_def plain_canvas_def num_or_def startsWith_def
      getMimeType_def getFileExtension_def js_or_def js_get_def mimeTypes_def extensions_def
      cleanFilename_def replaceSpecial_def safe_char_def digits_def lower_defs Let_def)

text \<open>
  C2. The quality option is claimed to be used for every \<open>q\<close> in \<open>[0,1]\<close>, the default
  applying only when the option is omitted. At \<open>quality: 0\<close> the expression
  \<open>options.quality || 0.8\<close> takes the default, since \<open>0\<close> is falsy: whatever the surface,
  the first encoder call of a JPEG download asks for quality \<open>0.8\<close>.
\<close>

theorem downloadFile_quality_zero:
  "\<exists>rest. snd (downloadFile h (DCanvas c) (Some ''photo.png'') (Some ''jpeg'')
                 (Some \<lparr>quality = Some (Num 0)\<rparr>))
           = ToDataURL (PStr ''image/jpeg'') (Some (Num 0.8)) # rest"
  by (simp add: downloadFile_def downloadFile_try_def resolveDownloadData_def
      canvasToDataURL_def getMimeType_def getFileExtension_def js_or_def js_get_def
      mimeTypes_def extensions_def num_or_def lower_defs Let_def
      split: sum.splits prod.splits thrown.splits)

theorem downloadFile_quality_zero_witness:
  "encoder_calls (snd (downloadFile example_host (DCanvas plain_canvas) (Some ''photo.png'')
                  (Some ''jpeg'') (Some \<lparr>quality = Some (Num 0)\<rparr>)))
     = [(PStr ''image/jpeg'', Some (Num 0.8))]"
proof -
  obtain rest where r: "snd (downloadFile example_host (DCanvas plain_canvas) (Some ''photo.png'')
                  (Some ''jpeg'') (Some \<lparr>quality = Some (Num 0)\<rparr>))
           = ToDataURL (PStr ''image/jpeg'') (Some (Num 0.8)) # rest"
    using downloadFile_quality_zero[of example_host plain_canvas] by blast
  have "snd (downloadFile example_host (DCanvas plain_canvas) (Some ''photo.png'')
                  (Some ''jpeg'') (Some \<lparr>quality = Some (Num 0)\<rparr>)) =
        ToDataURL (PStr ''image/jpeg'') (Some (Num 0.8)) #
          triggerDownload ''data:image/jpeg;base64,AAAA'' ''photo-converted.jpg''"
    by (simp add: downloadFile_def downloadFile_try_def resolveDownloadData_def
      canvasToDataURL_def plain_canvas_def num_or_def
      getMimeType_def getFileExtension_def js_or_def js_get_def mimeTypes_def extensions_def
      cleanFilename_def replaceSpecial_def safe_char_def digits_def lower_defs Let_def)
  with r show ?thesis by (auto simp: triggerDownload_def startsWith_def)
qed

text \<open>Every nonzero quality does reach the encoder of a lossy export.\<close>

lemma resolveDownloadData_quality:
  "r \<noteq> 0 \<Longrightarrow> mimeType \<noteq> PStr ''image/png'' \<Longrightarrow>
   \<exists>rest. snd (resolveDownloadData h (DCanvas c) mimeType \<lparr>quality = Some (Num r)\<rparr>)
          = ToDataURL mimeType (Some (Num r)) # rest"
  by (simp add: resolveDownloadData_def canvasToDataURL_def num_or_def Let_def split: sum.splits)

text \<open>With the option omitted the default is used.\<close>

lemma resolveDownloadData_default_quality:
  "mimeType \<noteq> PStr ''image/png'' \<Longrightarrow>
   \<exists>rest. snd (resolveDownloadData h (DCanvas c) mimeType \<lparr>quality = None\<rparr>)
          = ToDataURL mimeType (Some (Num 0.8)) # rest"
  by (simp add: resolveDownloadData_def canvasToDataURL_def num_or_def Let_def split: sum.splits)

subsection \<open>File validation\<close>

text \<open>
  C4, as the specification states it, fails: a present file object without a \<open>name\<close> makes
  \<open>file.name.split\<close> throw a \<open>TypeError\<close>.
\<close>

theorem validateFile_nameless_throws:
  "validateFile integral_numberToString
     (Some \<lparr>file_name = None, file_size = Some 10, file_type = Some ''image/png''\<rparr>)
     None = Inl (undefined_has_no ''split'')"
  by (simp add: validateFile_def)

text \<open>
  C4, amended. \<open>validateFile\<close> returns its result structure, and throws nothing, exactly
  when the file is absent or is a present object whose \<open>name\<close> is a string.
\<close>

theorem validateFile_returns_iff:
  "(\<exists>r. validateFile ns fl m = Inr r) \<longleftrightarrow>
   (fl = None \<or> (\<exists>f n. fl = Some f \<and> file_name f = Some n))"
proof (cases fl)
  case None
  then show ?thesis by (simp add: validateFile_def)
next
  case (Some f)
  show ?thesis
  proof (cases "file_name f")
    case None
    with Some show ?thesis by (simp add: validateFile_def Let_def)
  next
    case (Some n)
    obtain w where "js_pop (js_split CHR ''.'' n) = Some w"
      using js_pop_split by blast
    with Some \<open>fl = Some f\<close> show ?thesis by (simp add: validateFile_def Let_def)
  qed
qed

theorem validateFile_returns_iff_witness:
  "\<exists>r. validateFile integral_numberToString
          (Some \<lparr>file_name = Some ''x.png'', file_size = Some 10,
                 file_type = Some ''image/png''\<rparr>) None = Inr r"
  using validateFile_returns_iff[of integral_numberToString
      "Some \<lparr>file_name = Some ''x.png'', file_size = Some 10,
             file_type = Some ''image/png''\<rparr>" None]
  by simp

text \<open>
  C8, as the specification states it, fails: a present file above the limit and without a
  type, but also without a \<open>name\<close>, gets no error list at all, since \<open>file.name.split\<close> throws
  after the two errors were collected.
\<close>

theorem validateFile_errors_lost:
  "validateFile integral_numberToString
     (Some \<lparr>file_name = None, file_size = Some (6 * 1024 * 1024), file_type = None\<rparr>)
     (Some 5) = Inl (undefined_has_no ''split'')"
  by (simp add: validateFile_def)

text \<open>
  C8, amended. An absent file gives at once \<open>{isValid: false, errors: ["No file selected"]}\<close>
  with no \<open>fileInfo\<close>. For a present file whose name is a string, the errors are the size
  error, when the size exceeds \<open>maxSizeMB * 1024 * 1024\<close>, followed by the type error, when
  the type is missing or empty: both can occur together; \<open>isValid\<close> holds exactly when the
  list is empty.
\<close>

theorem validateFile_accumulates:
  assumes nm: "file_name f = Some n"
    and lim: "limit = (case m of None \<Rightarrow> 5 | Some v \<Rightarrow> v)"
  shows "validateFile ns None m =
           Inr \<lparr>isValid = False, errors = [''No file selected''], fileInfo = None\<rparr> \<and>
         (\<exists>r info. validateFile ns (Some f) m = Inr r \<and>
            errors r =
              (if \<exists>sz. file_size f = Some sz \<and> real_of_int sz > limit * 1024 * 1024
               then [''File size must be less than '' @ ns limit @ ''MB''] else []) @
              (if file_type f = None \<or> file_type f = Some []
               then [''Unable to determine file type''] else []) \<and>
            isValid r = (errors r = []) \<and> fileInfo r = Some info)"
proof -
  obtain w where w: "js_pop (js_split CHR ''.'' n) = Some w"
    using js_pop_split by blast
  have ty: "(\<not> str_truthy (file_type f)) = (file_type f = None \<or> file_type f = Some [])"
    by (cases "file_type f") auto
  show ?thesis
    unfolding lim
    by (cases "file_size f") (simp_all add: validateFile_def Let_def nm w ty)
qed

text \<open>A file of 6 MB with an empty type, against a limit of 5 MB: both errors, in order.\<close>

theorem validateFile_accumulates_witness:
  "validateFile integral_numberToString None (Some 5) =
     Inr \<lparr>isValid = False, errors = [''No file selected''], fileInfo = None\<rparr> \<and>
   (\<exists>r info. validateFile integral_numberToString
                (Some \<lparr>file_name = Some ''x.png'', file_size = Some (6 * 1024 * 1024),
                       file_type = Some []\<rparr>) (Some 5) = Inr r \<and>
     errors r = [''File size must be less than 5MB'', ''Unable to determine file type''] \<and>
     isValid r = False \<and> fileInfo r = Some info)"
  using validateFile_accumulates[of "\<lparr>file_name = Some ''x.png'',
      file_size = Some (6 * 1024 * 1024), file_type = Some []\<rparr>" "''x.png''" 5 "Some 5"
      integral_numberToString]
  by (auto simp: integral_numberToString_def show_int_def digit_char_def digits_def)

text \<open>The examples of the specification.\<close>

lemma validateFile_examples:
  "validateFile integral_numberToString None None =
     Inr \<lparr>isValid = False, errors = [''No file selected''], fileInfo = None\<rparr> \<and>
   validateFile integral_numberToString
     (Some \<lparr>file_name = Some ''x.png'', file_size = Some (6 * 1024 * 1024),
            file_type = Some ''image/png''\<rparr>) (Some 5) =
     Inr \<lparr>isValid = False, errors = [''File size must be less than 5MB''],
          fileInfo = Some \<lparr>info_name = Some ''x.png'', info_size = Some 6291456,
                            info_type = Some ''image/png'', info_extension = PStr ''png''\<rparr>\<rparr>"
  by (simp add: validateFile_def js_pop_def integral_numberToString_def show_int_def
      digit_char_def digits_def getFileExtension_def js_or_def js_get_def extensions_def
      lower_defs)

end
